theory Spec2Isabelle
  imports Main "HOL-Library.Word"
begin

unbundle bit_operations_syntax

section \<open>JavaScript values as the handlers see them\<close>

text \<open>
  The webhook of \<^verbatim>\<open>src/index.js\<close> works on values that come out of \<^verbatim>\<open>JSON.parse\<close>
  (the request body), out of the query-string parser (the handshake parameters) and out
  of \<^verbatim>\<open>process.env\<close> (the configuration). \<open>Undefined\<close> is what reading an absent
  property gives. An object is the list of its own properties; the list stands for the
  parsed object, so a key occurs once and \<open>map_of\<close> reads it. Numbers are the integers
  of magnitude below \<open>2 ^ 53\<close>, which a JSON text carries exactly and which print in
  plain decimal; a \<open>string\<close> is the sequence of its bytes.
\<close>

datatype jsval =
    Undefined
  | Null
  | JBool bool
  | JNum int
  | JStr string
  | JArr "jsval list"
  | JObj "(string \<times> jsval) list"

datatype js_error = TypeError | RangeError

type_synonym byte = "8 word"
type_synonym u32 = "32 word"

text \<open>\<^verbatim>\<open>process.env.X\<close> is a string or \<^verbatim>\<open>undefined\<close>.\<close>

fun of_env :: "string option \<Rightarrow> jsval" where
  "of_env None = Undefined"
| "of_env (Some s) = JStr s"

text \<open>ToBoolean: what \<^verbatim>\<open>!x\<close>, \<^verbatim>\<open>x && y\<close> and \<^verbatim>\<open>x || y\<close> test.\<close>

fun truthy :: "jsval \<Rightarrow> bool" where
  "truthy Undefined = False"
| "truthy Null = False"
| "truthy (JBool b) = b"
| "truthy (JNum n) = (n \<noteq> 0)"
| "truthy (JStr s) = (s \<noteq> [])"
| "truthy (JArr xs) = True"
| "truthy (JObj kvs) = True"

text \<open>
  Strict equality \<^verbatim>\<open>===\<close>. Primitives compare by value. Arrays and objects compare by
  identity; every comparison of the handlers has a string literal or a configuration
  value on its right, which is never the same object as a parsed value.
\<close>

fun strict_eq :: "jsval \<Rightarrow> jsval \<Rightarrow> bool" where
  "strict_eq Undefined Undefined = True"
| "strict_eq Null Null = True"
| "strict_eq (JBool a) (JBool b) = (a = b)"
| "strict_eq (JNum a) (JNum b) = (a = b)"
| "strict_eq (JStr a) (JStr b) = (a = b)"
| "strict_eq _ _ = False"

text \<open>
  Property read \<^verbatim>\<open>v.k\<close>, for the names the handlers read (\<^verbatim>\<open>object\<close>, \<^verbatim>\<open>entry\<close>,
  \<^verbatim>\<open>changes\<close>, \<^verbatim>\<open>value\<close>, \<^verbatim>\<open>field\<close>, \<^verbatim>\<open>messages\<close>, \<^verbatim>\<open>from\<close>, \<^verbatim>\<open>text\<close>, \<^verbatim>\<open>body\<close>):
  none of them is on a prototype, so only an object's own property can answer. Reading
  a property of \<^verbatim>\<open>undefined\<close> or \<^verbatim>\<open>null\<close> throws a TypeError.
\<close>

fun getProp :: "jsval \<Rightarrow> string \<Rightarrow> js_error + jsval" where
  "getProp Undefined k = Inl TypeError"
| "getProp Null k = Inl TypeError"
| "getProp (JObj kvs) k = Inr (case map_of kvs k of None \<Rightarrow> Undefined | Some v \<Rightarrow> v)"
| "getProp v k = Inr Undefined"

text \<open>Optional chaining \<^verbatim>\<open>v?.k\<close>: \<^verbatim>\<open>undefined\<close> when \<open>v\<close> is nullish.\<close>

definition optChain :: "jsval \<Rightarrow> string \<Rightarrow> js_error + jsval" where
  "optChain v k = (if v = Undefined \<or> v = Null then Inr Undefined else getProp v k)"

subsection \<open>String conversion in template literals\<close>

fun digit_char :: "nat \<Rightarrow> char" where
  "digit_char n = char_of (48 + n)"

fun string_of_nat :: "nat \<Rightarrow> string" where
  "string_of_nat n =
     (if n < 10 then [digit_char n] else string_of_nat (n div 10) @ [digit_char (n mod 10)])"

definition string_of_int :: "int \<Rightarrow> string" where
  "string_of_int i = (if i < 0 then CHR ''-'' # string_of_nat (nat (- i)) else string_of_nat (nat i))"

text \<open>
  ToString, as \<^verbatim>\<open>${x}\<close> applies it. An array joins its elements with a comma, a nullish
  element giving the empty string. A parsed object prints as \<^verbatim>\<open>[object Object]\<close>
  unless it has an own property \<^verbatim>\<open>toString\<close>: that property is never callable, the
  inherited \<^verbatim>\<open>valueOf\<close> returns the object itself, and the conversion throws a
  TypeError.
\<close>

fun js_toString :: "jsval \<Rightarrow> js_error + string"
  and js_join :: "jsval list \<Rightarrow> js_error + string" where
  "js_toString Undefined = Inr ''undefined''"
| "js_toString Null = Inr ''null''"
| "js_toString (JBool b) = Inr (if b then ''true'' else ''false'')"
| "js_toString (JNum n) = Inr (string_of_int n)"
| "js_toString (JStr s) = Inr s"
| "js_toString (JArr xs) = js_join xs"
| "js_toString (JObj kvs) =
     (if map_of kvs ''toString'' = None then Inr ''[object Object]'' else Inl TypeError)"
| "js_join [] = Inr []"
| "js_join (x # xs) =
     (case (if x = Undefined \<or> x = Null then Inr [] else js_toString x) of
        Inl e \<Rightarrow> Inl e
      | Inr s \<Rightarrow>
          (if xs = [] then Inr s
           else (case js_join xs of Inl e \<Rightarrow> Inl e | Inr t \<Rightarrow> Inr (s @ '','' @ t))))"

section \<open>HMAC-SHA256 and hexadecimal buffers (Node's crypto and Buffer)\<close>

text \<open>
  \<^verbatim>\<open>crypto.createHmac('sha256', key).update(buf).digest('hex')\<close> is HMAC (RFC 2104)
  over SHA-256 (FIPS 180-4), printed as lowercase hexadecimal.
\<close>

definition rotr :: "nat \<Rightarrow> u32 \<Rightarrow> u32" where
  "rotr n x = drop_bit n x OR push_bit (32 - n) x"

definition Ch :: "u32 \<Rightarrow> u32 \<Rightarrow> u32 \<Rightarrow> u32" where
  "Ch x y z = (x AND y) XOR (NOT x AND z)"

definition Maj :: "u32 \<Rightarrow> u32 \<Rightarrow> u32 \<Rightarrow> u32" where
  "Maj x y z = (x AND y) XOR (x AND z) XOR (y AND z)"

definition Sigma0 :: "u32 \<Rightarrow> u32" where
  "Sigma0 x = rotr 2 x XOR rotr 13 x XOR rotr 22 x"

definition Sigma1 :: "u32 \<Rightarrow> u32" where
  "Sigma1 x = rotr 6 x XOR rotr 11 x XOR rotr 25 x"

definition sigma0 :: "u32 \<Rightarrow> u32" where
  "sigma0 x = rotr 7 x XOR rotr 18 x XOR drop_bit 3 x"

definition sigma1 :: "u32 \<Rightarrow> u32" where
  "sigma1 x = rotr 17 x XOR rotr 19 x XOR drop_bit 10 x"

text \<open>The round constants, eight rounds a row.\<close>

definition K256 :: "u32 list" where
  "K256 = concat
   [[0x428a2f98, 0x71374491, 0xb5c0fbcf, 0xe9b5dba5, 0x3956c25b, 0x59f111f1, 0x923f82a4, 0xab1c5ed5],
    [0xd807aa98, 0x12835b01, 0x243185be, 0x550c7dc3, 0x72be5d74, 0x80deb1fe, 0x9bdc06a7, 0xc19bf174],
    [0xe49b69c1, 0xefbe4786, 0x0fc19dc6, 0x240ca1cc, 0x2de92c6f, 0x4a7484aa, 0x5cb0a9dc, 0x76f988da],
    [0x983e5152, 0xa831c66d, 0xb00327c8, 0xbf597fc7, 0xc6e00bf3, 0xd5a79147, 0x06ca6351, 0x14292967],
    [0x27b70a85, 0x2e1b2138, 0x4d2c6dfc, 0x53380d13, 0x650a7354, 0x766a0abb, 0x81c2c92e, 0x92722c85],
    [0xa2bfe8a1, 0xa81a664b, 0xc24b8b70, 0xc76c51a3, 0xd192e819, 0xd6990624, 0xf40e3585, 0x106aa070],
    [0x19a4c116, 0x1e376c08, 0x2748774c, 0x34b0bcb5, 0x391c0cb3, 0x4ed8aa4a, 0x5b9cca4f, 0x682e6ff3],
    [0x748f82ee, 0x78a5636f, 0x84c87814, 0x8cc70208, 0x90befffa, 0xa4506ceb, 0xbef9a3f7, 0xc67178f2]]"

definition H0 :: "u32 list" where
  "H0 = [0x6a09e667, 0xbb67ae85, 0x3c6ef372, 0xa54ff53a,
         0x510e527f, 0x9b05688c, 0x1f83d9ab, 0x5be0cd19]"

fun be32 :: "byte list \<Rightarrow> u32 list" where
  "be32 (a # b # c # d # rest) =
     (push_bit 24 (ucast a) OR push_bit 16 (ucast b) OR push_bit 8 (ucast c) OR ucast d) # be32 rest"
| "be32 _ = []"

definition bytes_of_u32 :: "u32 \<Rightarrow> byte list" where
  "bytes_of_u32 w = [ucast (drop_bit 24 w), ucast (drop_bit 16 w), ucast (drop_bit 8 w), ucast w]"

definition bytes_of_u64 :: "64 word \<Rightarrow> byte list" where
  "bytes_of_u64 w =
     [ucast (drop_bit 56 w), ucast (drop_bit 48 w), ucast (drop_bit 40 w), ucast (drop_bit 32 w),
      ucast (drop_bit 24 w), ucast (drop_bit 16 w), ucast (drop_bit 8 w), ucast w]"

definition pad :: "byte list \<Rightarrow> byte list" where
  "pad m = m @ [0x80] @ replicate ((119 - length m mod 64) mod 64) 0
             @ bytes_of_u64 (of_nat (8 * length m))"

text \<open>The message schedule, newest word first.\<close>

fun schedule :: "nat \<Rightarrow> u32 list \<Rightarrow> u32 list" where
  "schedule 0 ws = ws"
| "schedule (Suc n) ws =
     schedule n ((sigma1 (ws ! 1) + ws ! 6 + sigma0 (ws ! 14) + ws ! 15) # ws)"

fun round256 :: "u32 list \<Rightarrow> u32 \<times> u32 \<Rightarrow> u32 list" where
  "round256 [a, b, c, d, e, f, g, h] (k, w) =
     (let t1 = h + Sigma1 e + Ch e f g + k + w;
          t2 = Sigma0 a + Maj a b c
      in [t1 + t2, a, b, c, d + t1, e, f, g])"
| "round256 s kw = s"

definition compress :: "u32 list \<Rightarrow> byte list \<Rightarrow> u32 list" where
  "compress h blk =
     (let ws = rev (schedule 48 (rev (be32 blk)))
      in map2 (+) h (foldl round256 h (zip K256 ws)))"

fun blocks :: "u32 list \<Rightarrow> byte list \<Rightarrow> nat \<Rightarrow> u32 list" where
  "blocks h bs 0 = h"
| "blocks h bs (Suc n) = blocks (compress h (take 64 bs)) (drop 64 bs) n"

definition sha256 :: "byte list \<Rightarrow> byte list" where
  "sha256 m = (let p = pad m in concat (map bytes_of_u32 (blocks H0 p (length p div 64))))"

definition hmac_sha256 :: "byte list \<Rightarrow> byte list \<Rightarrow> byte list" where
  "hmac_sha256 key msg =
     (let k0 = (if 64 < length key then sha256 key else key);
          k = k0 @ replicate (64 - length k0) 0
      in sha256 (map (\<lambda>b. b XOR 0x5c) k @ sha256 (map (\<lambda>b. b XOR 0x36) k @ msg)))"

text \<open>The key of \<^verbatim>\<open>createHmac\<close> is a string: its bytes are the key.\<close>

definition bytes_of_string :: "string \<Rightarrow> byte list" where
  "bytes_of_string s = map of_char s"

text \<open>\<^verbatim>\<open>digest('hex')\<close>: two lowercase hexadecimal digits a byte.\<close>

definition hexdigit :: "nat \<Rightarrow> char" where
  "hexdigit n = (if n < 10 then char_of (48 + n) else char_of (87 + n))"

definition hex_of_byte :: "byte \<Rightarrow> string" where
  "hex_of_byte b = [hexdigit (unat b div 16), hexdigit (unat b mod 16)]"

definition toHex :: "byte list \<Rightarrow> string" where
  "toHex bs = concat (map hex_of_byte bs)"

text \<open>
  \<^verbatim>\<open>Buffer.from(s, 'hex')\<close> reads two digits a byte, of either case, and stops without
  an error at the first pair that is not two hexadecimal digits; a last single character
  is dropped.
\<close>

definition unhex :: "char \<Rightarrow> nat option" where
  "unhex c =
     (let n = (of_char c :: nat) in
      if 48 \<le> n \<and> n \<le> 57 then Some (n - 48)
      else if 97 \<le> n \<and> n \<le> 102 then Some (n - 87)
      else if 65 \<le> n \<and> n \<le> 70 then Some (n - 55)
      else None)"

fun fromHex :: "string \<Rightarrow> byte list" where
  "fromHex (a # b # rest) =
     (case unhex a of
        None \<Rightarrow> []
      | Some x \<Rightarrow> (case unhex b of None \<Rightarrow> [] | Some y \<Rightarrow> of_nat (16 * x + y) # fromHex rest))"
| "fromHex s = []"

text \<open>
  \<^verbatim>\<open>crypto.timingSafeEqual(a, b)\<close> throws a RangeError when the buffers differ in
  length and otherwise tells whether they hold the same bytes.
\<close>

definition timingSafeEqual :: "byte list \<Rightarrow> byte list \<Rightarrow> js_error + bool" where
  "timingSafeEqual a b = (if length a = length b then Inr (a = b) else Inl RangeError)"

section \<open>Configuration and responses\<close>

record config =
  VERIFY_TOKEN :: "string option"
  APP_SECRET :: "string option"
  WHATSAPP_TOKEN :: "string option"
  PHONE_NUMBER_ID :: "string option"

datatype payload = Empty | Text string | Json jsval

record response =
  status :: nat
  body :: payload

text \<open>
  Express: \<^verbatim>\<open>res.sendStatus(code)\<close> sets the status and sends the status message of the
  code as the text of the body; \<^verbatim>\<open>res.status(code).send(v)\<close> sends a string as it is,
  nothing for \<^verbatim>\<open>undefined\<close> and \<^verbatim>\<open>null\<close>, and any other value as JSON.
\<close>

definition status_message :: "nat \<Rightarrow> string" where
  "status_message code =
     (if code = 200 then ''OK''
      else if code = 401 then ''Unauthorized''
      else if code = 403 then ''Forbidden''
      else if code = 500 then ''Internal Server Error''
      else string_of_nat code)"

definition sendStatus :: "nat \<Rightarrow> response" where
  "sendStatus code = \<lparr>status = code, body = Text (status_message code)\<rparr>"


section \<open>The signature middleware\<close>

record post_request =
  signatureHeader :: "string option"
  rawBody :: "byte list option"
  parsedBody :: jsval

datatype middleware = Respond response | Next

definition expectedPrefix :: string where
  "expectedPrefix = ''sha256=''"

definition startsWith :: "string \<Rightarrow> string \<Rightarrow> bool" where
  "startsWith s p = (take (length p) s = p)"

text \<open>
  \<^verbatim>\<open>verifySignature\<close> (index.js, lines 65 to 102). \<^verbatim>\<open>req.rawBody\<close> is absent when the
  body parser captured no body. The \<^verbatim>\<open>catch\<close> answers 401 like the mismatch.
\<close>

definition verifySignature :: "config \<Rightarrow> post_request \<Rightarrow> middleware" where
  "verifySignature cfg req =
     (if \<not> truthy (of_env (signatureHeader req))
         \<or> \<not> startsWith (the (signatureHeader req)) expectedPrefix
      then Respond (sendStatus 401)
      else
        let receivedSignatureHex = drop (length expectedPrefix) (the (signatureHeader req)) in
        if rawBody req = None \<or> \<not> truthy (of_env (APP_SECRET cfg))
        then Respond (sendStatus 500)
        else
          let computedDigestHex =
                toHex (hmac_sha256 (bytes_of_string (the (APP_SECRET cfg))) (the (rawBody req)));
              bufSig = fromHex receivedSignatureHex;
              bufDigest = fromHex computedDigestHex
          in
            if length bufSig \<noteq> length bufDigest then Respond (sendStatus 401)
            else (case timingSafeEqual bufSig bufDigest of
                    Inl err \<Rightarrow> Respond (sendStatus 401)
                  | Inr same \<Rightarrow> if \<not> same then Respond (sendStatus 401) else Next))"

section \<open>The verification handshake\<close>



section \<open>The outbound sender\<close>

record http_request =
  url :: string
  data :: jsval
  headers :: "(string \<times> string) list"

text \<open>
  What \<^verbatim>\<open>await axios.post(...)\<close> can do: return, or throw an error that carries the
  response of a status outside 2xx, or throw an error with only a message (no response
  was received). The network is a parameter of the model.
\<close>

datatype axios_result =
    Resolved
  | RejectedResponse jsval
  | RejectedNoResponse string

type_synonym network = "http_request \<Rightarrow> axios_result"

datatype console = NotSet | Sent jsval | FailedToSend axios_result

datatype promise = Fulfilled | Rejected axios_result

record send_result =
  requests :: "http_request list"
  logged :: "console list"
  settled :: promise

text \<open>
  \<^verbatim>\<open>sendTextMessage\<close> (index.js, lines 34 to 62). \<open>requests\<close> are the calls of
  \<^verbatim>\<open>axios.post\<close> it made, \<open>logged\<close> which of its three console lines it wrote, and
  \<open>settled\<close> how the promise of the \<^verbatim>\<open>async\<close> function ends. The \<^verbatim>\<open>catch\<close> block takes
  every rejection of the awaited call.
\<close>

definition sendTextMessage :: "config \<Rightarrow> network \<Rightarrow> jsval \<Rightarrow> string \<Rightarrow> send_result" where
  "sendTextMessage cfg net to messageText =
     (if \<not> truthy (of_env (WHATSAPP_TOKEN cfg)) \<or> \<not> truthy (of_env (PHONE_NUMBER_ID cfg))
      then \<lparr>requests = [], logged = [NotSet], settled = Fulfilled\<rparr>
      else
        let rq = \<lparr>url = ''https://graph.facebook.com/v19.0/'' @ the (PHONE_NUMBER_ID cfg)
                        @ ''/messages'',
                  data = JObj [(''messaging_product'', JStr ''whatsapp''),
                               (''recipient_type'', JStr ''individual''),
                               (''to'', to),
                               (''type'', JStr ''text''),
                               (''text'', JObj [(''body'', JStr messageText)])],
                  headers = [(''Authorization'', ''Bearer '' @ the (WHATSAPP_TOKEN cfg)),
                             (''Content-Type'', ''application/json'')]\<rparr>
        in (case net rq of
              Resolved \<Rightarrow> \<lparr>requests = [rq], logged = [Sent to], settled = Fulfilled\<rparr>
            | RejectedResponse d \<Rightarrow>
                \<lparr>requests = [rq], logged = [FailedToSend (RejectedResponse d)], settled = Fulfilled\<rparr>
            | RejectedNoResponse m \<Rightarrow>
                \<lparr>requests = [rq], logged = [FailedToSend (RejectedNoResponse m)],
                 settled = Fulfilled\<rparr>))"

section \<open>The webhook endpoint\<close>

text \<open>One call of \<^verbatim>\<open>sendTextMessage\<close> made by the handler: its arguments and what it did.\<close>

record send_call =
  call_to :: jsval
  call_text :: string
  call_result :: send_result

text \<open>
  A piece of the handler leaves the calls it made and, when it threw, the error: the
  calls made before a throw stay made.
\<close>

type_synonym effects = "send_call list \<times> js_error option"

definition orThrow :: "js_error + 'a \<Rightarrow> ('a \<Rightarrow> effects) \<Rightarrow> effects" where
  "orThrow r k = (case r of Inl e \<Rightarrow> ([], Some e) | Inr v \<Rightarrow> k v)"

text \<open>\<^verbatim>\<open>xs.forEach(f)\<close> on the elements in order; a throw of \<open>f\<close> ends the loop.\<close>

fun forEach_list :: "(jsval \<Rightarrow> effects) \<Rightarrow> jsval list \<Rightarrow> effects" where
  "forEach_list f [] = ([], None)"
| "forEach_list f (x # xs) =
     (case f x of
        (cs, Some e) \<Rightarrow> (cs, Some e)
      | (cs, None) \<Rightarrow> (case forEach_list f xs of (cs', r) \<Rightarrow> (cs @ cs', r)))"

text \<open>
  \<^verbatim>\<open>v.forEach(f)\<close>: only an array has the method. On \<^verbatim>\<open>undefined\<close> and \<^verbatim>\<open>null\<close> the
  property read throws, on any other value the call of a non-function does.
\<close>

fun forEach :: "jsval \<Rightarrow> (jsval \<Rightarrow> effects) \<Rightarrow> effects" where
  "forEach (JArr xs) f = forEach_list f xs"
| "forEach v f = ([], Some TypeError)"

definition replyMessage :: "string \<Rightarrow> string" where
  "replyMessage incomingText =
     ''Hello! I see you sent: '' @ [CHR 0x22] @ incomingText @ [CHR 0x22]
       @ ''. I am your Node.js automated bot. Thanks for texting!''"

text \<open>
  The body of the innermost loop (index.js, lines 135 to 147). The template literal of
  the \<^verbatim>\<open>console.log\<close> converts \<^verbatim>\<open>incomingText\<close> and then \<^verbatim>\<open>from\<close> to strings, and the
  one of the reply converts \<^verbatim>\<open>incomingText\<close> again; the recipient is passed on as it is.
\<close>

definition onMessage :: "config \<Rightarrow> network \<Rightarrow> jsval \<Rightarrow> effects" where
  "onMessage cfg net message =
     orThrow (getProp message ''from'') (\<lambda>from.
     orThrow (getProp message ''text'') (\<lambda>text.
     orThrow (optChain text ''body'') (\<lambda>b.
       let incomingText = (if truthy b then b else JStr ''No Text Body'') in
       orThrow (js_toString incomingText) (\<lambda>shown.
       orThrow (js_toString from) (\<lambda>shown_from.
         ([\<lparr>call_to = from, call_text = replyMessage shown,
            call_result = sendTextMessage cfg net from (replyMessage shown)\<rparr>], None))))))"

text \<open>The body of the loop over \<^verbatim>\<open>entry.changes\<close> (index.js, lines 130 to 149).\<close>

definition onChange :: "config \<Rightarrow> network \<Rightarrow> jsval \<Rightarrow> effects" where
  "onChange cfg net change =
     orThrow (getProp change ''value'') (\<lambda>val.
     orThrow (getProp change ''field'') (\<lambda>field.
       if strict_eq field (JStr ''messages'')
       then orThrow (getProp val ''messages'') (\<lambda>messages.
              if truthy messages then forEach messages (onMessage cfg net) else ([], None))
       else ([], None)))"

definition onEntry :: "config \<Rightarrow> network \<Rightarrow> jsval \<Rightarrow> effects" where
  "onEntry cfg net entry =
     orThrow (getProp entry ''changes'') (\<lambda>changes. forEach changes (onChange cfg net))"

text \<open>
  What a request ends in: a response the handler sent, or an error it threw (Express
  then hands the request to its error handler; no acknowledgment is sent).
\<close>

datatype outcome = Responded response | Threw js_error

record post_result =
  outcome :: outcome
  calls :: "send_call list"

text \<open>
  The \<^verbatim>\<open>if\<close> statement of the route handler (index.js, lines 128 to 151): the loops over
  \<^verbatim>\<open>body.entry\<close>, entered only for the object \<^verbatim>\<open>whatsapp_business_account\<close>.
\<close>

definition processBody :: "config \<Rightarrow> network \<Rightarrow> jsval \<Rightarrow> effects" where
  "processBody cfg net b =
     orThrow (getProp b ''object'') (\<lambda>obj.
       if strict_eq obj (JStr ''whatsapp_business_account'')
       then orThrow (getProp b ''entry'') (\<lambda>entry. forEach entry (onEntry cfg net))
       else ([], None))"

text \<open>
  The route handler of \<^verbatim>\<open>app.post('/webhook', ...)\<close> (index.js, lines 122 to 156):
  \<^verbatim>\<open>res.sendStatus(200)\<close> is its last statement, reached when nothing threw.
\<close>

definition handlePost :: "config \<Rightarrow> network \<Rightarrow> jsval \<Rightarrow> post_result" where
  "handlePost cfg net b =
     (case processBody cfg net b of
        (cs, Some e) \<Rightarrow> \<lparr>outcome = Threw e, calls = cs\<rparr>
      | (cs, None) \<Rightarrow> \<lparr>outcome = Responded (sendStatus 200), calls = cs\<rparr>)"

text \<open>
  The route \<^verbatim>\<open>app.post('/webhook', verifySignature, ...)\<close>: the signature middleware
  first, the handler only after \<^verbatim>\<open>next()\<close>. A request reaches the route after the body
  parser has passed it on; \<open>webhookPost\<close> below puts the parser in front of it.
\<close>

definition postWebhook :: "config \<Rightarrow> network \<Rightarrow> post_request \<Rightarrow> post_result" where
  "postWebhook cfg net req =
     (case verifySignature cfg req of
        Respond r \<Rightarrow> \<lparr>outcome = Responded r, calls = []\<rparr>
      | Next \<Rightarrow> handlePost cfg net (parsedBody req))"

subsection \<open>The body parser in front of the route\<close>

text \<open>
  \<^verbatim>\<open>app.use(bodyParser.json({ verify: ... }))\<close> (index.js, lines 21 to 25) runs before
  the route. What it does with a request is an input of the model, since reading and
  parsing the body is the library's work:
  \<^item> \<open>Skipped\<close>: the request has no body or is not of the JSON content type; the parser
    leaves it alone, the \<^verbatim>\<open>verify\<close> callback is not called and \<^verbatim>\<open>req.rawBody\<close> stays
    absent;
  \<^item> \<open>ParseError st\<close>: the parser refuses the body (text that is not JSON gives 400, a
    body over the limit 413, an unsupported charset 415) and passes an error of that
    status on, which Express's error handler answers; the route does not run;
  \<^item> \<open>Parsed raw v\<close>: the \<^verbatim>\<open>verify\<close> callback stored the bytes \<open>raw\<close> as
    \<^verbatim>\<open>req.rawBody\<close> and the parsed value \<open>v\<close> became \<^verbatim>\<open>req.body\<close>.
\<close>

datatype body_parser = Skipped | ParseError nat | Parsed "byte list" jsval

record incoming =
  in_signature :: "string option"
  in_body :: body_parser

text \<open>
  What a POST to \<^verbatim>\<open>/webhook\<close> ends in: the error handler's answer to a parser error, of
  the status the error carries, or what the route did. For a request the parser left
  alone \<^verbatim>\<open>req.body\<close> is the empty object the parser starts from; the route never reads
  it, since the middleware answers a request without \<^verbatim>\<open>req.rawBody\<close> itself.
\<close>

datatype app_result = ErrorHandler nat | Routed post_result

definition webhookPost :: "config \<Rightarrow> network \<Rightarrow> incoming \<Rightarrow> app_result" where
  "webhookPost cfg net inc =
     (case in_body inc of
        ParseError st \<Rightarrow> ErrorHandler st
      | Skipped \<Rightarrow>
          Routed (postWebhook cfg net
            \<lparr>signatureHeader = in_signature inc, rawBody = None, parsedBody = JObj []\<rparr>)
      | Parsed raw v \<Rightarrow>
          Routed (postWebhook cfg net
            \<lparr>signatureHeader = in_signature inc, rawBody = Some raw, parsedBody = v\<rparr>))"

section \<open>The envelope and its inbound messages, as the specification describes them\<close>

text \<open>
  The specification's data model: an envelope is an object whose \<^verbatim>\<open>entry\<close> is a list of
  objects, each with a list \<^verbatim>\<open>changes\<close> of objects with a string \<^verbatim>\<open>field\<close>; a change of
  the field \<^verbatim>\<open>messages\<close> has an object \<^verbatim>\<open>value\<close> whose \<^verbatim>\<open>messages\<close>, when present, is a
  list of messages; a message has a string \<^verbatim>\<open>from\<close> and, optionally, a \<^verbatim>\<open>text\<close> object
  whose \<^verbatim>\<open>body\<close>, when present, is a string. These definitions follow the specification
  (sections 3 and 4.3), not the handler; the theorems compare the handler with them.
\<close>

definition wf_message :: "jsval \<Rightarrow> bool" where
  "wf_message m =
     (case m of
        JObj kvs \<Rightarrow>
          (case map_of kvs ''from'' of Some (JStr s) \<Rightarrow> True | _ \<Rightarrow> False) \<and>
          (case map_of kvs ''text'' of
             None \<Rightarrow> True
           | Some (JObj tkvs) \<Rightarrow>
               (case map_of tkvs ''body'' of None \<Rightarrow> True | Some (JStr s) \<Rightarrow> True | _ \<Rightarrow> False)
           | _ \<Rightarrow> False)
      | _ \<Rightarrow> False)"

definition wf_change :: "jsval \<Rightarrow> bool" where
  "wf_change c =
     (case c of
        JObj kvs \<Rightarrow>
          (case map_of kvs ''field'' of
             Some (JStr f) \<Rightarrow>
               (if f = ''messages''
                then (case map_of kvs ''value'' of
                        Some (JObj vkvs) \<Rightarrow>
                          (case map_of vkvs ''messages'' of
                             None \<Rightarrow> True
                           | Some (JArr ms) \<Rightarrow> list_all wf_message ms
                           | _ \<Rightarrow> False)
                      | _ \<Rightarrow> False)
                else True)
           | _ \<Rightarrow> False)
      | _ \<Rightarrow> False)"

definition wf_entry :: "jsval \<Rightarrow> bool" where
  "wf_entry e =
     (case e of
        JObj kvs \<Rightarrow>
          (case map_of kvs ''changes'' of Some (JArr cs) \<Rightarrow> list_all wf_change cs | _ \<Rightarrow> False)
      | _ \<Rightarrow> False)"

definition wf_envelope :: "jsval \<Rightarrow> bool" where
  "wf_envelope b =
     (case b of
        JObj kvs \<Rightarrow>
          (case map_of kvs ''object'' of Some (JStr s) \<Rightarrow> True | _ \<Rightarrow> False) \<and>
          (case map_of kvs ''entry'' of Some (JArr es) \<Rightarrow> list_all wf_entry es | _ \<Rightarrow> False)
      | _ \<Rightarrow> False)"

text \<open>The messages under the changes of the field \<^verbatim>\<open>messages\<close>, in order.\<close>

definition messages_of_change :: "jsval \<Rightarrow> jsval list" where
  "messages_of_change c =
     (case c of
        JObj kvs \<Rightarrow>
          (if map_of kvs ''field'' = Some (JStr ''messages'')
           then (case map_of kvs ''value'' of
                   Some (JObj vkvs) \<Rightarrow>
                     (case map_of vkvs ''messages'' of Some (JArr ms) \<Rightarrow> ms | _ \<Rightarrow> [])
                 | _ \<Rightarrow> [])
           else [])
      | _ \<Rightarrow> [])"

definition messages_of_entry :: "jsval \<Rightarrow> jsval list" where
  "messages_of_entry e =
     (case e of
        JObj kvs \<Rightarrow>
          (case map_of kvs ''changes'' of
             Some (JArr cs) \<Rightarrow> concat (map messages_of_change cs)
           | _ \<Rightarrow> [])
      | _ \<Rightarrow> [])"

definition inbound_messages :: "jsval \<Rightarrow> jsval list" where
  "inbound_messages b =
     (case b of
        JObj kvs \<Rightarrow>
          (if map_of kvs ''object'' = Some (JStr ''whatsapp_business_account'')
           then (case map_of kvs ''entry'' of
                   Some (JArr es) \<Rightarrow> concat (map messages_of_entry es)
                 | _ \<Rightarrow> [])
           else [])
      | _ \<Rightarrow> [])"

text \<open>The sender of a message, and its text or the sentinel for a message without one.\<close>

definition message_from :: "jsval \<Rightarrow> jsval" where
  "message_from m =
     (case m of
        JObj kvs \<Rightarrow> (case map_of kvs ''from'' of None \<Rightarrow> Undefined | Some v \<Rightarrow> v)
      | _ \<Rightarrow> Undefined)"

definition message_text :: "jsval \<Rightarrow> string" where
  "message_text m =
     (case m of
        JObj kvs \<Rightarrow>
          (case map_of kvs ''text'' of
             Some (JObj tkvs) \<Rightarrow>
               (case map_of tkvs ''body'' of
                  Some (JStr s) \<Rightarrow> if s = [] then ''No Text Body'' else s
                | _ \<Rightarrow> ''No Text Body'')
           | _ \<Rightarrow> ''No Text Body'')
      | _ \<Rightarrow> ''No Text Body'')"

text \<open>The call of the sender that answers one message.\<close>

definition reply_call :: "config \<Rightarrow> network \<Rightarrow> jsval \<Rightarrow> send_call" where
  "reply_call cfg net m =
     \<lparr>call_to = message_from m,
      call_text = replyMessage (message_text m),
      call_result = sendTextMessage cfg net (message_from m) (replyMessage (message_text m))\<rparr>"

section \<open>Requests as the platform signs them, and example inputs\<close>

text \<open>
  The platform signs the bytes it sends with the application secret: the header is
  \<^verbatim>\<open>sha256=\<close> followed by the hexadecimal HMAC-SHA256 of the body.
\<close>

definition signed_request :: "string \<Rightarrow> byte list \<Rightarrow> jsval \<Rightarrow> post_request" where
  "signed_request secret raw b =
     \<lparr>signatureHeader = Some (''sha256='' @ toHex (hmac_sha256 (bytes_of_string secret) raw)),
      rawBody = Some raw, parsedBody = b\<rparr>"

definition example_config :: config where
  "example_config =
     \<lparr>VERIFY_TOKEN = Some ''my-verify-token'', APP_SECRET = Some ''app-secret'',
      WHATSAPP_TOKEN = Some ''access-token'', PHONE_NUMBER_ID = Some ''106540352242922''\<rparr>"

text \<open>A string in double quotes, for the JSON texts below.\<close>

definition dq :: "string \<Rightarrow> string" where
  "dq s = CHR 0x22 # s @ [CHR 0x22]"

text \<open>
  The entry of the specification's extraction test: one change of the field
  \<^verbatim>\<open>messages\<close> with one message from \<^verbatim>\<open>1555\<close> of the text \<^verbatim>\<open>hi\<close>; its JSON text; the
  envelope of that one entry and the bytes of its JSON text.
\<close>

definition entry_one_message :: jsval where
  "entry_one_message =
     JObj [(''changes'', JArr [JObj
        [(''field'', JStr ''messages''),
         (''value'', JObj [(''messages'', JArr [JObj
            [(''from'', JStr ''1555''),
             (''text'', JObj [(''body'', JStr ''hi'')])]])])]])]"

definition json_entry_one_message :: string where
  "json_entry_one_message =
     ''{'' @ dq ''changes'' @ '':[{'' @ dq ''field'' @ '':'' @ dq ''messages''
       @ '','' @ dq ''value'' @ '':{'' @ dq ''messages'' @ '':[{'' @ dq ''from'' @ '':'' @ dq ''1555''
       @ '','' @ dq ''text'' @ '':{'' @ dq ''body'' @ '':'' @ dq ''hi'' @ ''}}]}}]}''"

definition envelope_one_message :: jsval where
  "envelope_one_message =
     JObj [(''object'', JStr ''whatsapp_business_account''),
           (''entry'', JArr [entry_one_message])]"

definition raw_one_message :: "byte list" where
  "raw_one_message =
     bytes_of_string (''{'' @ dq ''object'' @ '':'' @ dq ''whatsapp_business_account'' @ '',''
       @ dq ''entry'' @ '':['' @ json_entry_one_message @ '']}'')"

text \<open>The same entry followed by an entry that is \<^verbatim>\<open>null\<close>.\<close>

definition envelope_entry_then_null :: jsval where
  "envelope_entry_then_null =
     JObj [(''object'', JStr ''whatsapp_business_account''),
           (''entry'', JArr ([entry_one_message] @ [Null]))]"

definition raw_entry_then_null :: "byte list" where
  "raw_entry_then_null =
     bytes_of_string (''{'' @ dq ''object'' @ '':'' @ dq ''whatsapp_business_account'' @ '',''
       @ dq ''entry'' @ '':['' @ json_entry_one_message @ '',null]}'')"

text \<open>An envelope of the right object with no \<^verbatim>\<open>entry\<close>.\<close>

definition envelope_no_entry :: jsval where
  "envelope_no_entry = JObj [(''object'', JStr ''whatsapp_business_account'')]"

definition raw_no_entry :: "byte list" where
  "raw_no_entry =
     bytes_of_string (''{'' @ dq ''object'' @ '':'' @ dq ''whatsapp_business_account'' @ ''}'')"

text \<open>An envelope of another object.\<close>

definition envelope_other :: jsval where
  "envelope_other = JObj [(''object'', JStr ''other''), (''entry'', JArr [])]"

definition raw_other :: "byte list" where
  "raw_other =
     bytes_of_string (''{'' @ dq ''object'' @ '':'' @ dq ''other'' @ '','' @ dq ''entry'' @ '':[]}'')"

section \<open>Lemmas on the building blocks\<close>

lemma strict_eq_JStr [simp]: "strict_eq v (JStr s) = (v = JStr s)"
  by (cases v) auto

lemma unhex_hexdigit: "n < 16 \<Longrightarrow> unhex (hexdigit n) = Some n"
  by (auto simp: unhex_def hexdigit_def Let_def)

lemma unat_byte_div16: "unat (b :: byte) div 16 < 16"
proof -
  have "unat b < 256" using unsigned_less [of b, where ?'a = nat] by simp
  then show ?thesis by simp
qed

lemma fromHex_hex_of_byte: "fromHex (hex_of_byte b @ s) = b # fromHex s"
  by (simp add: hex_of_byte_def unhex_hexdigit unat_byte_div16)

lemma fromHex_toHex: "fromHex (toHex bs) = bs"
  by (induction bs) (simp_all add: toHex_def fromHex_hex_of_byte)

lemma fromHex_toHex_tail: "unhex c = None \<Longrightarrow> fromHex (toHex bs @ c # s) = bs"
proof (induction bs)
  case Nil
  then show ?case by (cases s) (simp_all add: toHex_def)
next
  case (Cons b bs)
  then show ?case by (simp add: toHex_def fromHex_hex_of_byte)
qed

lemma length_round256: "length s = 8 \<Longrightarrow> length (round256 s kw) = 8"
  by (cases "(s, kw)" rule: round256.cases) (simp_all add: Let_def)

lemma length_foldl_round256: "length s = 8 \<Longrightarrow> length (foldl round256 s kws) = 8"
  by (induction kws arbitrary: s) (simp_all add: length_round256)

lemma length_compress: "length h = 8 \<Longrightarrow> length (compress h blk) = 8"
  by (simp add: compress_def Let_def length_foldl_round256)

lemma length_blocks: "length h = 8 \<Longrightarrow> length (blocks h bs n) = 8"
  by (induction n arbitrary: h bs) (simp_all add: length_compress)

lemma length_concat_bytes_of_u32: "length (concat (map bytes_of_u32 ws)) = 4 * length ws"
  by (induction ws) (simp_all add: bytes_of_u32_def)

lemma length_sha256: "length (sha256 m) = 32"
  by (simp add: sha256_def Let_def length_concat_bytes_of_u32 length_blocks H0_def)

lemma length_hmac_sha256: "length (hmac_sha256 k m) = 32"
  by (simp add: hmac_sha256_def Let_def length_sha256)

lemma startsWith_prefix [simp]: "startsWith (expectedPrefix @ s) expectedPrefix"
  by (simp add: startsWith_def)

lemma verify_ok:
  assumes "APP_SECRET cfg = Some secret" and "secret \<noteq> []"
    and "signatureHeader req
           = Some (expectedPrefix @ toHex (hmac_sha256 (bytes_of_string secret) raw))"
    and "rawBody req = Some raw"
  shows "verifySignature cfg req = Next"
  using assms
  by (simp add: verifySignature_def fromHex_toHex timingSafeEqual_def Let_def)
    (simp add: expectedPrefix_def)

lemma verify_signed_request:
  "secret \<noteq> [] \<Longrightarrow> APP_SECRET cfg = Some secret \<Longrightarrow>
     verifySignature cfg (signed_request secret raw b) = Next"
  by (rule verify_ok [where secret = secret and raw = raw])
    (simp_all add: signed_request_def expectedPrefix_def)

lemma verify_no_prefix:
  "(\<And>h. signatureHeader req = Some h \<Longrightarrow> \<not> startsWith h expectedPrefix) \<Longrightarrow>
     verifySignature cfg req = Respond (sendStatus 401)"
  by (cases "signatureHeader req") (simp_all add: verifySignature_def)

lemma verify_no_secret:
  "signatureHeader req = Some h \<Longrightarrow> startsWith h expectedPrefix \<Longrightarrow>
     \<not> truthy (of_env (APP_SECRET cfg)) \<Longrightarrow>
     verifySignature cfg req = Respond (sendStatus 500)"
  by (auto simp: verifySignature_def startsWith_def expectedPrefix_def)

lemma verify_mismatch:
  assumes "signatureHeader req = Some h" and "startsWith h expectedPrefix"
    and "rawBody req = Some raw" and "APP_SECRET cfg = Some secret" and "secret \<noteq> []"
    and "fromHex (drop (length expectedPrefix) h) \<noteq> hmac_sha256 (bytes_of_string secret) raw"
  shows "verifySignature cfg req = Respond (sendStatus 401)"
proof -
  from assms(2) have "h \<noteq> []"
    by (auto simp: startsWith_def expectedPrefix_def)
  with assms show ?thesis
    by (simp add: verifySignature_def fromHex_toHex timingSafeEqual_def Let_def)
qed

lemma verify_500_needs_prefix:
  assumes "verifySignature cfg req = Respond r" and "status r = 500"
  shows "\<exists>h. signatureHeader req = Some h \<and> startsWith h expectedPrefix"
proof (rule ccontr)
  assume "\<not> ?thesis"
  then have "verifySignature cfg req = Respond (sendStatus 401)"
    by (intro verify_no_prefix) auto
  with assms show False by (auto simp: sendStatus_def)
qed


lemma onMessage_wf_imp:
  "wf_message m \<longrightarrow> onMessage cfg net m = ([reply_call cfg net m], None)"
  by (simp add: wf_message_def onMessage_def orThrow_def optChain_def reply_call_def
      message_from_def message_text_def Let_def split: jsval.split option.split)

lemma forEach_messages_wf:
  "list_all wf_message ms \<Longrightarrow>
     forEach_list (onMessage cfg net) ms = (map (reply_call cfg net) ms, None)"
  using onMessage_wf_imp by (induction ms) simp_all

lemma onChange_wf_imp:
  "wf_change c \<longrightarrow>
     onChange cfg net c = (map (reply_call cfg net) (messages_of_change c), None)"
  by (simp add: wf_change_def onChange_def orThrow_def messages_of_change_def
      forEach_messages_wf split: jsval.split option.split)

lemma forEach_changes_wf:
  "list_all wf_change cs \<Longrightarrow>
     forEach_list (onChange cfg net) cs
       = (map (reply_call cfg net) (concat (map messages_of_change cs)), None)"
  using onChange_wf_imp by (induction cs) simp_all

lemma onEntry_wf_imp:
  "wf_entry e \<longrightarrow>
     onEntry cfg net e = (map (reply_call cfg net) (messages_of_entry e), None)"
  by (simp add: wf_entry_def onEntry_def orThrow_def messages_of_entry_def
      forEach_changes_wf split: jsval.split option.split)

lemma forEach_entries_wf:
  "list_all wf_entry es \<Longrightarrow>
     forEach_list (onEntry cfg net) es
       = (map (reply_call cfg net) (concat (map messages_of_entry es)), None)"
  using onEntry_wf_imp by (induction es) simp_all

lemma handlePost_wf_imp:
  "wf_envelope b \<longrightarrow>
     handlePost cfg net b
       = \<lparr>outcome = Responded (sendStatus 200),
          calls = map (reply_call cfg net) (inbound_messages b)\<rparr>"
  by (simp add: wf_envelope_def handlePost_def processBody_def orThrow_def inbound_messages_def
      forEach_entries_wf split: jsval.split option.split)

lemma handlePost_wf:
  "wf_envelope b \<Longrightarrow>
     handlePost cfg net b
       = \<lparr>outcome = Responded (sendStatus 200),
          calls = map (reply_call cfg net) (inbound_messages b)\<rparr>"
  using handlePost_wf_imp by blast

lemma forEach_list_append:
  "forEach_list f (xs @ ys)
     = (case forEach_list f xs of
          (cs, Some e) \<Rightarrow> (cs, Some e)
        | (cs, None) \<Rightarrow> (case forEach_list f ys of (cs', r) \<Rightarrow> (cs @ cs', r)))"
proof (induction xs)
  case Nil
  show ?case by (cases "forEach_list f ys") simp
next
  case (Cons x xs)
  then show ?case
    by (cases "f x"; cases "forEach_list f xs"; cases "forEach_list f ys")
      (simp split: option.split)
qed

lemma getProp_Inl: "getProp v k = Inl e \<Longrightarrow> e = TypeError"
  by (cases v) auto

lemma forEach_not_array: "(\<And>xs. v \<noteq> JArr xs) \<Longrightarrow> forEach v f = ([], Some TypeError)"
  by (cases v) auto

lemma onEntry_no_changes:
  assumes "\<And>cs. getProp en ''changes'' \<noteq> Inr (JArr cs)"
  shows "onEntry cfg net en = ([], Some TypeError)"
proof (cases "getProp en ''changes''")
  case (Inl e)
  then show ?thesis by (simp add: onEntry_def orThrow_def getProp_Inl)
next
  case (Inr c)
  with assms have "\<And>cs. c \<noteq> JArr cs" by auto
  with Inr show ?thesis by (simp add: onEntry_def orThrow_def forEach_not_array)
qed

lemma onChange_no_value:
  assumes "getProp ch ''field'' = Inr (JStr ''messages'')"
    and "getProp ch ''value'' = Inr Undefined \<or> getProp ch ''value'' = Inr Null"
  shows "onChange cfg net ch = ([], Some TypeError)"
  using assms by (auto simp: onChange_def orThrow_def)

lemma postWebhook_no_prefix:
  "(\<And>h. signatureHeader req = Some h \<Longrightarrow> \<not> startsWith h expectedPrefix) \<Longrightarrow>
     postWebhook cfg net req
       = \<lparr>outcome = Responded \<lparr>status = 401, body = Text ''Unauthorized''\<rparr>, calls = []\<rparr>"
  using verify_no_prefix [of req cfg]
  by (simp add: postWebhook_def sendStatus_def status_message_def)

lemma postWebhook_no_secret:
  "signatureHeader req = Some h \<Longrightarrow> startsWith h expectedPrefix \<Longrightarrow>
     \<not> truthy (of_env (APP_SECRET cfg)) \<Longrightarrow>
     postWebhook cfg net req
       = \<lparr>outcome = Responded \<lparr>status = 500, body = Text ''Internal Server Error''\<rparr>,
          calls = []\<rparr>"
  using verify_no_secret [of req h cfg]
  by (simp add: postWebhook_def sendStatus_def status_message_def)

lemma postWebhook_no_rawBody:
  "signatureHeader req = Some h \<Longrightarrow> startsWith h expectedPrefix \<Longrightarrow> rawBody req = None \<Longrightarrow>
     postWebhook cfg net req
       = \<lparr>outcome = Responded \<lparr>status = 500, body = Text ''Internal Server Error''\<rparr>,
          calls = []\<rparr>"
  by (auto simp: postWebhook_def verifySignature_def startsWith_def expectedPrefix_def
      sendStatus_def status_message_def)

lemma postWebhook_mismatch:
  "signatureHeader req = Some h \<Longrightarrow> startsWith h expectedPrefix \<Longrightarrow>
     rawBody req = Some raw \<Longrightarrow> APP_SECRET cfg = Some secret \<Longrightarrow> secret \<noteq> [] \<Longrightarrow>
     fromHex (drop (length expectedPrefix) h) \<noteq> hmac_sha256 (bytes_of_string secret) raw \<Longrightarrow>
     postWebhook cfg net req
       = \<lparr>outcome = Responded \<lparr>status = 401, body = Text ''Unauthorized''\<rparr>, calls = []\<rparr>"
  using verify_mismatch [of req h raw cfg secret]
  by (simp add: postWebhook_def sendStatus_def status_message_def)

lemma sendTextMessage_requests_to:
  "map (\<lambda>r. getProp (data r) ''to'') (requests (sendTextMessage cfg net to txt))
     = (if truthy (of_env (WHATSAPP_TOKEN cfg)) \<and> truthy (of_env (PHONE_NUMBER_ID cfg))
        then [Inr to] else [])"
  by (simp add: sendTextMessage_def Let_def split: axios_result.split)

lemma sendTextMessage_settled: "settled (sendTextMessage cfg net to txt) = Fulfilled"
  by (simp add: sendTextMessage_def Let_def split: axios_result.split)

lemma sendTextMessage_at_most_once: "length (requests (sendTextMessage cfg net to txt)) \<le> 1"
  by (simp add: sendTextMessage_def Let_def split: axios_result.split)

text \<open>The error a piece of the handler ends in does not depend on the network.\<close>

lemma snd_forEach_list_Cons:
  "snd (forEach_list f (x # xs))
     = (case snd (f x) of Some e \<Rightarrow> Some e | None \<Rightarrow> snd (forEach_list f xs))"
  by (cases "f x"; cases "forEach_list f xs") (simp split: option.split)

lemma forEach_list_snd:
  assumes "\<And>x. snd (f x) = snd (g x)"
  shows "snd (forEach_list f xs) = snd (forEach_list g xs)"
proof (induction xs)
  case Nil
  show ?case by simp
next
  case (Cons x xs)
  then show ?case
    unfolding snd_forEach_list_Cons using assms [of x] by (simp split: option.split)
qed

lemma forEach_snd:
  assumes "\<And>x. snd (f x) = snd (g x)"
  shows "snd (forEach v f) = snd (forEach v g)"
proof (cases v)
  case (JArr xs)
  then show ?thesis using forEach_list_snd [of f g xs] assms by simp
qed simp_all

lemma onMessage_snd: "snd (onMessage cfg net m) = snd (onMessage cfg net' m)"
  by (simp add: onMessage_def orThrow_def Let_def split: sum.split)

lemma onChange_snd: "snd (onChange cfg net c) = snd (onChange cfg net' c)"
proof -
  have "snd (forEach v (onMessage cfg net)) = snd (forEach v (onMessage cfg net'))" for v
    by (rule forEach_snd) (rule onMessage_snd)
  then show ?thesis
    by (simp add: onChange_def orThrow_def split: sum.split)
qed

lemma onEntry_snd: "snd (onEntry cfg net e) = snd (onEntry cfg net' e)"
proof -
  have "snd (forEach v (onChange cfg net)) = snd (forEach v (onChange cfg net'))" for v
    by (rule forEach_snd) (rule onChange_snd)
  then show ?thesis
    by (simp add: onEntry_def orThrow_def split: sum.split)
qed

lemma processBody_snd: "snd (processBody cfg net b) = snd (processBody cfg net' b)"
proof -
  have "snd (forEach v (onEntry cfg net)) = snd (forEach v (onEntry cfg net'))" for v
    by (rule forEach_snd) (rule onEntry_snd)
  then show ?thesis
    by (simp add: processBody_def orThrow_def split: sum.split)
qed

lemma outcome_handlePost:
  "outcome (handlePost cfg net b)
     = (case snd (processBody cfg net b) of
          Some e \<Rightarrow> Threw e
        | None \<Rightarrow> Responded (sendStatus 200))"
  by (cases "processBody cfg net b") (simp add: handlePost_def split: option.split)

lemma handlePost_outcome: "outcome (handlePost cfg net b) = outcome (handlePost cfg net' b)"
  by (simp only: outcome_handlePost processBody_snd [of cfg net b net'])

lemma postWebhook_outcome: "outcome (postWebhook cfg net req) = outcome (postWebhook cfg net' req)"
  by (simp add: postWebhook_def handlePost_outcome [of cfg net _ net'] split: middleware.split)

lemma wf_envelope_one_message: "wf_envelope envelope_one_message"
  by (simp add: wf_envelope_def wf_entry_def wf_change_def wf_message_def envelope_one_message_def
      entry_one_message_def)

lemma inbound_messages_one_message:
  "inbound_messages envelope_one_message
     = [JObj [(''from'', JStr ''1555''), (''text'', JObj [(''body'', JStr ''hi'')])]]"
  by (simp add: inbound_messages_def messages_of_entry_def messages_of_change_def
      envelope_one_message_def entry_one_message_def)

lemma postWebhook_wf:
  assumes "verifySignature cfg req = Next" and "wf_envelope (parsedBody req)"
  shows "postWebhook cfg net req
     = \<lparr>outcome = Responded (sendStatus 200),
        calls = map (reply_call cfg net) (inbound_messages (parsedBody req))\<rparr>"
  using assms by (simp add: postWebhook_def handlePost_wf)

text \<open>The hash agrees with the SHA-256 of \<^verbatim>\<open>abc\<close> that FIPS 180-4 lists.\<close>

lemma sha256_abc:
  "toHex (sha256 (bytes_of_string ''abc''))
     = ''ba7816bf8f01cfea414140de5dae2223b00361a396177a9cb410ff61f20015ad''"
  by code_simp

text \<open>The keyed hash agrees with test case 2 of RFC 4231.\<close>

lemma hmac_sha256_rfc4231_case2:
  "toHex (hmac_sha256 (bytes_of_string ''Jefe'') (bytes_of_string ''what do ya want for nothing?''))
     = ''5bdcc146bf60754e6a042426089575c75a003f089d2739839dec58b964ec3843''"
  by code_simp

section \<open>The claims\<close>

text \<open>
  C1 (the code diverges from the claim). An authenticated POST of the object
  \<^verbatim>\<open>whatsapp_business_account\<close> makes the handler throw a TypeError, so that the
  request is not acknowledged, when \<^verbatim>\<open>entry\<close> is absent or not an array, when the first
  entry has no array \<^verbatim>\<open>changes\<close>, and when its first change is of the field
  \<^verbatim>\<open>messages\<close> and has no \<^verbatim>\<open>value\<close>.
\<close>

theorem postWebhook_throws_on_missing_parts:
  assumes "verifySignature cfg req = Next"
    and "getProp (parsedBody req) ''object'' = Inr (JStr ''whatsapp_business_account'')"
  shows "(getProp (parsedBody req) ''entry'' = Inr e \<and> (\<forall>xs. e \<noteq> JArr xs)
            \<longrightarrow> postWebhook cfg net req = \<lparr>outcome = Threw TypeError, calls = []\<rparr>)
    \<and> (getProp (parsedBody req) ''entry'' = Inr (JArr (en # rest))
          \<and> (\<forall>cs. getProp en ''changes'' \<noteq> Inr (JArr cs))
            \<longrightarrow> postWebhook cfg net req = \<lparr>outcome = Threw TypeError, calls = []\<rparr>)
    \<and> (getProp (parsedBody req) ''entry'' = Inr (JArr (en # rest))
          \<and> getProp en ''changes'' = Inr (JArr (ch # chs))
          \<and> getProp ch ''field'' = Inr (JStr ''messages'')
          \<and> (getProp ch ''value'' = Inr Undefined \<or> getProp ch ''value'' = Inr Null)
            \<longrightarrow> postWebhook cfg net req = \<lparr>outcome = Threw TypeError, calls = []\<rparr>)"
proof (intro conjI impI)
  assume "getProp (parsedBody req) ''entry'' = Inr e \<and> (\<forall>xs. e \<noteq> JArr xs)"
  with assms show "postWebhook cfg net req = \<lparr>outcome = Threw TypeError, calls = []\<rparr>"
    by (simp add: postWebhook_def handlePost_def processBody_def orThrow_def forEach_not_array)
next
  assume "getProp (parsedBody req) ''entry'' = Inr (JArr (en # rest))
      \<and> (\<forall>cs. getProp en ''changes'' \<noteq> Inr (JArr cs))"
  with assms show "postWebhook cfg net req = \<lparr>outcome = Threw TypeError, calls = []\<rparr>"
    by (simp add: postWebhook_def handlePost_def processBody_def orThrow_def onEntry_no_changes)
next
  assume a: "getProp (parsedBody req) ''entry'' = Inr (JArr (en # rest))
      \<and> getProp en ''changes'' = Inr (JArr (ch # chs))
      \<and> getProp ch ''field'' = Inr (JStr ''messages'')
      \<and> (getProp ch ''value'' = Inr Undefined \<or> getProp ch ''value'' = Inr Null)"
  then have "onChange cfg net ch = ([], Some TypeError)"
    by (intro onChange_no_value) auto
  with a have "onEntry cfg net en = ([], Some TypeError)"
    by (simp add: onEntry_def orThrow_def)
  with a assms show "postWebhook cfg net req = \<lparr>outcome = Threw TypeError, calls = []\<rparr>"
    by (simp add: postWebhook_def handlePost_def processBody_def orThrow_def)
qed

theorem postWebhook_throws_on_missing_parts_witness:
  "postWebhook example_config (\<lambda>rq. Resolved)
     (signed_request ''app-secret'' raw_no_entry envelope_no_entry)
     = \<lparr>outcome = Threw TypeError, calls = []\<rparr>"
proof -
  have v: "verifySignature example_config
      (signed_request ''app-secret'' raw_no_entry envelope_no_entry) = Next"
    by (rule verify_signed_request) (simp_all add: example_config_def)
  have g: "getProp (parsedBody (signed_request ''app-secret'' raw_no_entry envelope_no_entry))
      ''object'' = Inr (JStr ''whatsapp_business_account'')"
    by (simp add: signed_request_def envelope_no_entry_def)
  show ?thesis
    using postWebhook_throws_on_missing_parts [OF v g, of Undefined "\<lambda>rq. Resolved"]
    by (simp add: signed_request_def envelope_no_entry_def)
qed

text \<open>
  C2 (amended). For every body and every non-empty secret, the middleware passes a
  request whose header is \<^verbatim>\<open>sha256=\<close> followed by the hexadecimal HMAC-SHA256 of
  the body under the secret.
\<close>

theorem verifySignature_accepts_hmac:
  "secret \<noteq> [] \<Longrightarrow> APP_SECRET cfg = Some secret \<Longrightarrow> rawBody req = Some raw \<Longrightarrow>
     signatureHeader req = Some (''sha256='' @ toHex (hmac_sha256 (bytes_of_string secret) raw)) \<Longrightarrow>
     verifySignature cfg req = Next"
  by (rule verify_ok [where secret = secret and raw = raw]) (simp_all add: expectedPrefix_def)

theorem verifySignature_accepts_hmac_witness:
  "verifySignature example_config
     \<lparr>signatureHeader = Some (''sha256=''
          @ toHex (hmac_sha256 (bytes_of_string ''app-secret'') raw_one_message)),
      rawBody = Some raw_one_message, parsedBody = envelope_one_message\<rparr> = Next"
  using verifySignature_accepts_hmac [of "''app-secret''" example_config
      "\<lparr>signatureHeader = Some (''sha256=''
          @ toHex (hmac_sha256 (bytes_of_string ''app-secret'') raw_one_message)),
        rawBody = Some raw_one_message, parsedBody = envelope_one_message\<rparr>" raw_one_message]
  by (simp add: example_config_def)

theorem verifySignature_empty_secret_counterexample:
  "verifySignature (example_config\<lparr>APP_SECRET := Some ''''\<rparr>)
     \<lparr>signatureHeader = Some (''sha256=''
          @ toHex (hmac_sha256 (bytes_of_string '''') raw_one_message)),
      rawBody = Some raw_one_message, parsedBody = envelope_one_message\<rparr>
     = Respond \<lparr>status = 500, body = Text ''Internal Server Error''\<rparr>
   \<and> verifySignature (example_config\<lparr>APP_SECRET := Some ''''\<rparr>)
     \<lparr>signatureHeader = Some (''sha256=''
          @ toHex (hmac_sha256 (bytes_of_string '''') raw_one_message)),
      rawBody = Some raw_one_message, parsedBody = envelope_one_message\<rparr> \<noteq> Next"
  by (simp add: verifySignature_def startsWith_def expectedPrefix_def sendStatus_def
      status_message_def)

text \<open>
  C3 (amended). A POST whose body the JSON body parser refuses (text that is not JSON,
  for one) is answered by the error handler with the status of the parser's error,
  before any signature check. For every POST that the parser passes on to the route: a
  signature header that is absent or lacks the prefix \<^verbatim>\<open>sha256=\<close> is answered 401,
  whether or not a secret is configured; with a header of that prefix, a missing or
  empty secret, or a body that was not captured, is answered 500; with such a header, a
  captured body and a non-empty secret, a signature whose hexadecimal part does not
  decode to the computed digest (another length or other bytes) is answered 401. In
  every one of these cases the handler does not run: no call of the sender is made.
\<close>

theorem webhookPost_rejects:
  "(in_body inc = ParseError st \<longrightarrow> webhookPost cfg net inc = ErrorHandler st)
   \<and> ((\<forall>e. in_body inc \<noteq> ParseError e)
        \<and> (\<forall>h. in_signature inc = Some h \<longrightarrow> \<not> startsWith h expectedPrefix)
      \<longrightarrow> webhookPost cfg net inc
            = Routed \<lparr>outcome = Responded \<lparr>status = 401, body = Text ''Unauthorized''\<rparr>,
                      calls = []\<rparr>)
   \<and> ((\<forall>e. in_body inc \<noteq> ParseError e)
        \<and> in_signature inc = Some h \<and> startsWith h expectedPrefix
        \<and> \<not> truthy (of_env (APP_SECRET cfg))
      \<longrightarrow> webhookPost cfg net inc
            = Routed \<lparr>outcome = Responded \<lparr>status = 500, body = Text ''Internal Server Error''\<rparr>,
                      calls = []\<rparr>)
   \<and> (in_body inc = Skipped \<and> in_signature inc = Some h \<and> startsWith h expectedPrefix
      \<longrightarrow> webhookPost cfg net inc
            = Routed \<lparr>outcome = Responded \<lparr>status = 500, body = Text ''Internal Server Error''\<rparr>,
                      calls = []\<rparr>)
   \<and> (in_body inc = Parsed raw v \<and> in_signature inc = Some h \<and> startsWith h expectedPrefix
        \<and> APP_SECRET cfg = Some secret \<and> secret \<noteq> []
        \<and> fromHex (drop (length expectedPrefix) h) \<noteq> hmac_sha256 (bytes_of_string secret) raw
      \<longrightarrow> webhookPost cfg net inc
            = Routed \<lparr>outcome = Responded \<lparr>status = 401, body = Text ''Unauthorized''\<rparr>,
                      calls = []\<rparr>)"
proof (intro conjI impI)
  assume "in_body inc = ParseError st"
  then show "webhookPost cfg net inc = ErrorHandler st"
    by (simp add: webhookPost_def)
next
  assume a: "(\<forall>e. in_body inc \<noteq> ParseError e)
      \<and> (\<forall>h. in_signature inc = Some h \<longrightarrow> \<not> startsWith h expectedPrefix)"
  show "webhookPost cfg net inc
      = Routed \<lparr>outcome = Responded \<lparr>status = 401, body = Text ''Unauthorized''\<rparr>,
                calls = []\<rparr>"
  proof -
    have "postWebhook cfg net r
        = \<lparr>outcome = Responded \<lparr>status = 401, body = Text ''Unauthorized''\<rparr>, calls = []\<rparr>"
      if "signatureHeader r = in_signature inc" for r
      using a that by (intro postWebhook_no_prefix) auto
    with a show ?thesis
      by (cases "in_body inc") (simp_all add: webhookPost_def)
  qed
next
  assume a: "(\<forall>e. in_body inc \<noteq> ParseError e)
      \<and> in_signature inc = Some h \<and> startsWith h expectedPrefix
      \<and> \<not> truthy (of_env (APP_SECRET cfg))"
  then show "webhookPost cfg net inc
      = Routed \<lparr>outcome = Responded \<lparr>status = 500, body = Text ''Internal Server Error''\<rparr>,
                calls = []\<rparr>"
    by (cases "in_body inc") (simp_all add: webhookPost_def postWebhook_no_secret [of _ h])
next
  assume "in_body inc = Skipped \<and> in_signature inc = Some h \<and> startsWith h expectedPrefix"
  then show "webhookPost cfg net inc
      = Routed \<lparr>outcome = Responded \<lparr>status = 500, body = Text ''Internal Server Error''\<rparr>,
                calls = []\<rparr>"
    by (simp add: webhookPost_def postWebhook_no_rawBody [of _ h])
next
  assume "in_body inc = Parsed raw v \<and> in_signature inc = Some h \<and> startsWith h expectedPrefix
      \<and> APP_SECRET cfg = Some secret \<and> secret \<noteq> []
      \<and> fromHex (drop (length expectedPrefix) h) \<noteq> hmac_sha256 (bytes_of_string secret) raw"
  then show "webhookPost cfg net inc
      = Routed \<lparr>outcome = Responded \<lparr>status = 401, body = Text ''Unauthorized''\<rparr>,
                calls = []\<rparr>"
    by (simp add: webhookPost_def postWebhook_mismatch [of _ h raw _ secret])
qed

theorem webhookPost_rejects_witness:
  "webhookPost example_config (\<lambda>rq. Resolved)
     \<lparr>in_signature = None, in_body = ParseError 400\<rparr> = ErrorHandler 400
   \<and> webhookPost example_config (\<lambda>rq. Resolved)
     \<lparr>in_signature = None, in_body = Parsed raw_one_message envelope_one_message\<rparr>
     = Routed \<lparr>outcome = Responded \<lparr>status = 401, body = Text ''Unauthorized''\<rparr>, calls = []\<rparr>
   \<and> webhookPost (example_config\<lparr>APP_SECRET := None\<rparr>) (\<lambda>rq. Resolved)
     \<lparr>in_signature = Some ''sha256=00'',
      in_body = Parsed raw_one_message envelope_one_message\<rparr>
     = Routed \<lparr>outcome = Responded \<lparr>status = 500, body = Text ''Internal Server Error''\<rparr>,
               calls = []\<rparr>
   \<and> webhookPost example_config (\<lambda>rq. Resolved)
     \<lparr>in_signature = Some ''sha256=00'', in_body = Skipped\<rparr>
     = Routed \<lparr>outcome = Responded \<lparr>status = 500, body = Text ''Internal Server Error''\<rparr>,
               calls = []\<rparr>
   \<and> webhookPost example_config (\<lambda>rq. Resolved)
     \<lparr>in_signature = Some ''sha256=00'',
      in_body = Parsed raw_one_message envelope_one_message\<rparr>
     = Routed \<lparr>outcome = Responded \<lparr>status = 401, body = Text ''Unauthorized''\<rparr>, calls = []\<rparr>"
proof -
  let ?net = "\<lambda>rq :: http_request. Resolved"
  let ?parsed = "Parsed raw_one_message envelope_one_message"
  have pre: "startsWith ''sha256=00'' expectedPrefix"
    by (simp add: startsWith_def expectedPrefix_def)
  have "length (fromHex ''00'')
      \<noteq> length (hmac_sha256 (bytes_of_string ''app-secret'') raw_one_message)"
    by (simp add: length_hmac_sha256 unhex_def)
  then have ne: "fromHex (drop (length expectedPrefix) ''sha256=00'')
      \<noteq> hmac_sha256 (bytes_of_string ''app-secret'') raw_one_message"
    by (auto simp: expectedPrefix_def)
  have a: "webhookPost example_config ?net \<lparr>in_signature = None, in_body = ParseError 400\<rparr>
      = ErrorHandler 400"
    using webhookPost_rejects [where inc = "\<lparr>in_signature = None, in_body = ParseError 400\<rparr>"
        and st = 400 and cfg = example_config and net = "?net"]
    by simp
  have b: "webhookPost example_config ?net \<lparr>in_signature = None, in_body = ?parsed\<rparr>
      = Routed \<lparr>outcome = Responded \<lparr>status = 401, body = Text ''Unauthorized''\<rparr>,
                calls = []\<rparr>"
    using webhookPost_rejects [where inc = "\<lparr>in_signature = None, in_body = ?parsed\<rparr>"
        and cfg = example_config and net = "?net"]
    by simp
  have c: "webhookPost (example_config\<lparr>APP_SECRET := None\<rparr>) ?net
      \<lparr>in_signature = Some ''sha256=00'', in_body = ?parsed\<rparr>
      = Routed \<lparr>outcome = Responded \<lparr>status = 500, body = Text ''Internal Server Error''\<rparr>,
                calls = []\<rparr>"
    using webhookPost_rejects [where inc = "\<lparr>in_signature = Some ''sha256=00'', in_body = ?parsed\<rparr>"
        and h = "''sha256=00''" and cfg = "example_config\<lparr>APP_SECRET := None\<rparr>"
        and net = "?net"] pre
    by simp
  have d: "webhookPost example_config ?net \<lparr>in_signature = Some ''sha256=00'', in_body = Skipped\<rparr>
      = Routed \<lparr>outcome = Responded \<lparr>status = 500, body = Text ''Internal Server Error''\<rparr>,
                calls = []\<rparr>"
    using webhookPost_rejects [where inc = "\<lparr>in_signature = Some ''sha256=00'', in_body = Skipped\<rparr>"
        and h = "''sha256=00''" and cfg = example_config and net = "?net"] pre
    by simp
  have e: "webhookPost example_config ?net
      \<lparr>in_signature = Some ''sha256=00'', in_body = ?parsed\<rparr>
      = Routed \<lparr>outcome = Responded \<lparr>status = 401, body = Text ''Unauthorized''\<rparr>,
                calls = []\<rparr>"
    using webhookPost_rejects [where inc = "\<lparr>in_signature = Some ''sha256=00'', in_body = ?parsed\<rparr>"
        and h = "''sha256=00''" and cfg = example_config and net = "?net"
        and raw = raw_one_message and v = envelope_one_message and secret = "''app-secret''"]
      pre ne
    by (simp add: example_config_def)
  from a b c d e show ?thesis by simp
qed

theorem webhookPost_no_secret_no_header_counterexample:
  "APP_SECRET (example_config\<lparr>APP_SECRET := None\<rparr>) = None
   \<and> webhookPost (example_config\<lparr>APP_SECRET := None\<rparr>) (\<lambda>rq. Resolved)
       \<lparr>in_signature = None, in_body = Parsed raw_one_message envelope_one_message\<rparr>
     = Routed \<lparr>outcome = Responded \<lparr>status = 401, body = Text ''Unauthorized''\<rparr>, calls = []\<rparr>
   \<and> webhookPost (example_config\<lparr>APP_SECRET := None\<rparr>) (\<lambda>rq. Resolved)
       \<lparr>in_signature = None, in_body = Parsed raw_one_message envelope_one_message\<rparr>
     \<noteq> Routed \<lparr>outcome = Responded \<lparr>status = 500, body = Text ''Internal Server Error''\<rparr>,
                calls = []\<rparr>
   \<and> webhookPost example_config (\<lambda>rq. Resolved)
       \<lparr>in_signature = None, in_body = ParseError 400\<rparr> = ErrorHandler 400"
  by (simp add: webhookPost_def postWebhook_def verifySignature_def sendStatus_def
      status_message_def)

text \<open>
  C5 (amended). A POST with a valid signature and a well-formed envelope is answered
  with status 200 and the body \<^verbatim>\<open>OK\<close> (the status text that \<^verbatim>\<open>res.sendStatus\<close>
  sends), whatever the number of messages and whatever the network does with the
  sends. The handler calls the sender exactly once for each message under a change of
  the field \<^verbatim>\<open>messages\<close>, in order, with the message's \<^verbatim>\<open>from\<close> as the recipient;
  each call makes one request, whose \<^verbatim>\<open>to\<close> is that recipient, when the token and the
  phone number id are configured, and none otherwise.
\<close>

theorem postWebhook_replies:
  assumes "verifySignature cfg req = Next" and "wf_envelope (parsedBody req)"
  shows "outcome (postWebhook cfg net req) = Responded \<lparr>status = 200, body = Text ''OK''\<rparr>
    \<and> length (calls (postWebhook cfg net req)) = length (inbound_messages (parsedBody req))
    \<and> map call_to (calls (postWebhook cfg net req))
        = map message_from (inbound_messages (parsedBody req))
    \<and> map call_text (calls (postWebhook cfg net req))
        = map (\<lambda>m. replyMessage (message_text m)) (inbound_messages (parsedBody req))
    \<and> map call_result (calls (postWebhook cfg net req))
        = map (\<lambda>m. sendTextMessage cfg net (message_from m) (replyMessage (message_text m)))
            (inbound_messages (parsedBody req))
    \<and> map (\<lambda>c. map (\<lambda>r. getProp (data r) ''to'') (requests (call_result c)))
          (calls (postWebhook cfg net req))
        = map (\<lambda>m. if truthy (of_env (WHATSAPP_TOKEN cfg)) \<and> truthy (of_env (PHONE_NUMBER_ID cfg))
                    then [Inr (message_from m)] else [])
            (inbound_messages (parsedBody req))"
  unfolding postWebhook_wf [OF assms]
  by (simp add: sendStatus_def status_message_def reply_call_def comp_def
      sendTextMessage_requests_to)

theorem postWebhook_replies_witness:
  "outcome (postWebhook example_config (\<lambda>rq. RejectedNoResponse ''ECONNRESET'')
      (signed_request ''app-secret'' raw_one_message envelope_one_message))
     = Responded \<lparr>status = 200, body = Text ''OK''\<rparr>
   \<and> map call_to (calls (postWebhook example_config (\<lambda>rq. RejectedNoResponse ''ECONNRESET'')
      (signed_request ''app-secret'' raw_one_message envelope_one_message)))
     = [JStr ''1555'']
   \<and> map call_text (calls (postWebhook example_config (\<lambda>rq. RejectedNoResponse ''ECONNRESET'')
      (signed_request ''app-secret'' raw_one_message envelope_one_message)))
     = [replyMessage ''hi'']
   \<and> map (\<lambda>c. map (\<lambda>r. getProp (data r) ''to'') (requests (call_result c)))
        (calls (postWebhook example_config (\<lambda>rq. RejectedNoResponse ''ECONNRESET'')
          (signed_request ''app-secret'' raw_one_message envelope_one_message)))
     = [[Inr (JStr ''1555'')]]"
proof -
  have v: "verifySignature example_config
      (signed_request ''app-secret'' raw_one_message envelope_one_message) = Next"
    by (rule verify_signed_request) (simp_all add: example_config_def)
  have w: "wf_envelope (parsedBody
      (signed_request ''app-secret'' raw_one_message envelope_one_message))"
    by (simp add: signed_request_def wf_envelope_one_message)
  have p: "parsedBody (signed_request ''app-secret'' raw_one_message envelope_one_message)
      = envelope_one_message"
    by (simp add: signed_request_def)
  show ?thesis
    using postWebhook_replies [OF v w, of "\<lambda>rq. RejectedNoResponse ''ECONNRESET''"]
    by (simp add: p inbound_messages_one_message message_from_def message_text_def
        example_config_def)
qed

theorem postWebhook_ok_body_counterexample:
  "outcome (postWebhook example_config (\<lambda>rq. Resolved)
      (signed_request ''app-secret'' raw_one_message envelope_one_message))
     = Responded \<lparr>status = 200, body = Text ''OK''\<rparr>
   \<and> outcome (postWebhook example_config (\<lambda>rq. Resolved)
      (signed_request ''app-secret'' raw_one_message envelope_one_message))
     \<noteq> Responded \<lparr>status = 200, body = Empty\<rparr>"
proof -
  have v: "verifySignature example_config
      (signed_request ''app-secret'' raw_one_message envelope_one_message) = Next"
    by (rule verify_signed_request) (simp_all add: example_config_def)
  have w: "wf_envelope (parsedBody
      (signed_request ''app-secret'' raw_one_message envelope_one_message))"
    by (simp add: signed_request_def wf_envelope_one_message)
  show ?thesis
    unfolding postWebhook_wf [OF v w]
    by (simp add: sendStatus_def status_message_def)
qed

text \<open>
  C6. An authenticated POST whose body has an \<^verbatim>\<open>object\<close> other than
  \<^verbatim>\<open>whatsapp_business_account\<close> holds no inbound message, makes no call of the
  sender and is acknowledged with status 200.
\<close>

theorem postWebhook_ignores_other_objects:
  assumes "verifySignature cfg req = Next"
    and "getProp (parsedBody req) ''object'' = Inr obj"
    and "obj \<noteq> JStr ''whatsapp_business_account''"
  shows "postWebhook cfg net req
           = \<lparr>outcome = Responded \<lparr>status = 200, body = Text ''OK''\<rparr>, calls = []\<rparr>
    \<and> inbound_messages (parsedBody req) = []"
proof
  from assms show "postWebhook cfg net req
      = \<lparr>outcome = Responded \<lparr>status = 200, body = Text ''OK''\<rparr>, calls = []\<rparr>"
    by (simp add: postWebhook_def handlePost_def processBody_def orThrow_def sendStatus_def
        status_message_def)
  from assms(2,3) show "inbound_messages (parsedBody req) = []"
    by (cases "parsedBody req") (auto simp: inbound_messages_def split: option.splits)
qed

theorem postWebhook_ignores_other_objects_witness:
  "postWebhook example_config (\<lambda>rq. Resolved)
     (signed_request ''app-secret'' raw_other envelope_other)
     = \<lparr>outcome = Responded \<lparr>status = 200, body = Text ''OK''\<rparr>, calls = []\<rparr>
   \<and> inbound_messages envelope_other = []"
proof -
  have v: "verifySignature example_config
      (signed_request ''app-secret'' raw_other envelope_other) = Next"
    by (rule verify_signed_request) (simp_all add: example_config_def)
  have g: "getProp (parsedBody (signed_request ''app-secret'' raw_other envelope_other))
      ''object'' = Inr (JStr ''other'')"
    by (simp add: signed_request_def envelope_other_def)
  show ?thesis
    using postWebhook_ignores_other_objects [OF v g, of "\<lambda>rq. Resolved"]
    by (simp add: signed_request_def)
qed




text \<open>
  C8. The sender makes no request when the token or the phone number id is not
  configured. Its promise is fulfilled whatever the network answers: a failed request is
  caught and logged, nothing is thrown to the caller. It makes at most one request, so
  nothing is retried. What the webhook answers does not depend on the network.
\<close>

theorem sendTextMessage_swallows_failures:
  "(\<not> truthy (of_env (WHATSAPP_TOKEN cfg)) \<or> \<not> truthy (of_env (PHONE_NUMBER_ID cfg))
      \<longrightarrow> requests (sendTextMessage cfg net to txt) = [])
   \<and> settled (sendTextMessage cfg net to txt) = Fulfilled
   \<and> length (requests (sendTextMessage cfg net to txt)) \<le> 1
   \<and> (requests (sendTextMessage cfg net to txt) = [rq] \<and> net rq \<noteq> Resolved
      \<longrightarrow> logged (sendTextMessage cfg net to txt) = [FailedToSend (net rq)])
   \<and> outcome (postWebhook cfg net req) = outcome (postWebhook cfg net' req)"
proof (intro conjI impI)
  assume "\<not> truthy (of_env (WHATSAPP_TOKEN cfg)) \<or> \<not> truthy (of_env (PHONE_NUMBER_ID cfg))"
  then show "requests (sendTextMessage cfg net to txt) = []"
    by (auto simp: sendTextMessage_def)
next
  show "settled (sendTextMessage cfg net to txt) = Fulfilled"
    by (rule sendTextMessage_settled)
next
  show "length (requests (sendTextMessage cfg net to txt)) \<le> 1"
    by (rule sendTextMessage_at_most_once)
next
  assume "requests (sendTextMessage cfg net to txt) = [rq] \<and> net rq \<noteq> Resolved"
  then show "logged (sendTextMessage cfg net to txt) = [FailedToSend (net rq)]"
    by (auto simp: sendTextMessage_def Let_def split: if_splits axios_result.splits)
next
  show "outcome (postWebhook cfg net req) = outcome (postWebhook cfg net' req)"
    by (rule postWebhook_outcome)
qed

theorem sendTextMessage_swallows_failures_witness:
  "requests (sendTextMessage (example_config\<lparr>WHATSAPP_TOKEN := None\<rparr>)
      (\<lambda>rq. RejectedNoResponse ''ECONNRESET'') (JStr ''1555'') ''hi'') = []
   \<and> settled (sendTextMessage example_config
      (\<lambda>rq. RejectedNoResponse ''ECONNRESET'') (JStr ''1555'') ''hi'') = Fulfilled
   \<and> logged (sendTextMessage example_config
      (\<lambda>rq. RejectedNoResponse ''ECONNRESET'') (JStr ''1555'') ''hi'')
       = [FailedToSend (RejectedNoResponse ''ECONNRESET'')]
   \<and> outcome (postWebhook example_config (\<lambda>rq. RejectedNoResponse ''ECONNRESET'')
        (signed_request ''app-secret'' raw_one_message envelope_one_message))
     = outcome (postWebhook example_config (\<lambda>rq. Resolved)
        (signed_request ''app-secret'' raw_one_message envelope_one_message))"
proof -
  let ?net = "\<lambda>rq :: http_request. RejectedNoResponse ''ECONNRESET''"
  let ?rq = "\<lparr>url = ''https://graph.facebook.com/v19.0/106540352242922/messages'',
      data = JObj [(''messaging_product'', JStr ''whatsapp''),
                   (''recipient_type'', JStr ''individual''),
                   (''to'', JStr ''1555''),
                   (''type'', JStr ''text''),
                   (''text'', JObj [(''body'', JStr ''hi'')])],
      headers = [(''Authorization'', ''Bearer access-token''),
                 (''Content-Type'', ''application/json'')]\<rparr>"
  have r: "requests (sendTextMessage example_config ?net (JStr ''1555'') ''hi'') = [?rq]"
    by (simp add: sendTextMessage_def example_config_def)
  have a: "requests (sendTextMessage (example_config\<lparr>WHATSAPP_TOKEN := None\<rparr>)
      ?net (JStr ''1555'') ''hi'') = []"
    using sendTextMessage_swallows_failures [of "example_config\<lparr>WHATSAPP_TOKEN := None\<rparr>"
        "?net" "JStr ''1555''" "''hi''"]
    by simp
  have b: "settled (sendTextMessage example_config ?net (JStr ''1555'') ''hi'') = Fulfilled
    \<and> logged (sendTextMessage example_config ?net (JStr ''1555'') ''hi'')
       = [FailedToSend (RejectedNoResponse ''ECONNRESET'')]
    \<and> outcome (postWebhook example_config ?net
        (signed_request ''app-secret'' raw_one_message envelope_one_message))
     = outcome (postWebhook example_config (\<lambda>rq. Resolved)
        (signed_request ''app-secret'' raw_one_message envelope_one_message))"
    using sendTextMessage_swallows_failures [of example_config "?net" "JStr ''1555''" "''hi''"
        "?rq" "signed_request ''app-secret'' raw_one_message envelope_one_message"
        "\<lambda>rq. Resolved"] r
    by simp
  from a b show ?thesis by simp
qed



text \<open>
  C10. A request whose signature header is absent or does not start with
  \<^verbatim>\<open>sha256=\<close> is answered 401 by the middleware whatever the configuration, also
  with no secret; an answer 500 of the middleware implies a header with the prefix.
\<close>

theorem verifySignature_header_first:
  "((\<forall>h. signatureHeader req = Some h \<longrightarrow> \<not> startsWith h expectedPrefix)
      \<longrightarrow> verifySignature cfg req = Respond \<lparr>status = 401, body = Text ''Unauthorized''\<rparr>
        \<and> verifySignature (cfg\<lparr>APP_SECRET := None\<rparr>) req
            = Respond \<lparr>status = 401, body = Text ''Unauthorized''\<rparr>)
   \<and> (verifySignature cfg req = Respond r \<and> status r = 500
      \<longrightarrow> (\<exists>h. signatureHeader req = Some h \<and> startsWith h expectedPrefix))"
proof (intro conjI impI)
  assume "\<forall>h. signatureHeader req = Some h \<longrightarrow> \<not> startsWith h expectedPrefix"
  then have *: "verifySignature c req = Respond (sendStatus 401)" for c
    by (intro verify_no_prefix) blast
  show "verifySignature cfg req = Respond \<lparr>status = 401, body = Text ''Unauthorized''\<rparr>"
    using * [of cfg] by (simp add: sendStatus_def status_message_def)
  show "verifySignature (cfg\<lparr>APP_SECRET := None\<rparr>) req
          = Respond \<lparr>status = 401, body = Text ''Unauthorized''\<rparr>"
    using * [of "cfg\<lparr>APP_SECRET := None\<rparr>"] by (simp add: sendStatus_def status_message_def)
next
  assume "verifySignature cfg req = Respond r \<and> status r = 500"
  then show "\<exists>h. signatureHeader req = Some h \<and> startsWith h expectedPrefix"
    using verify_500_needs_prefix by blast
qed

theorem verifySignature_header_first_witness:
  "verifySignature (example_config\<lparr>APP_SECRET := None\<rparr>)
     \<lparr>signatureHeader = None, rawBody = Some raw_no_entry, parsedBody = envelope_no_entry\<rparr>
     = Respond \<lparr>status = 401, body = Text ''Unauthorized''\<rparr>
   \<and> verifySignature (example_config\<lparr>APP_SECRET := None\<rparr>)
     \<lparr>signatureHeader = Some ''sha1=00'', rawBody = Some raw_no_entry,
      parsedBody = envelope_no_entry\<rparr>
     = Respond \<lparr>status = 401, body = Text ''Unauthorized''\<rparr>
   \<and> verifySignature (example_config\<lparr>APP_SECRET := None\<rparr>)
     \<lparr>signatureHeader = Some ''sha256=00'', rawBody = Some raw_no_entry,
      parsedBody = envelope_no_entry\<rparr>
     = Respond \<lparr>status = 500, body = Text ''Internal Server Error''\<rparr>
   \<and> startsWith ''sha256=00'' expectedPrefix"
proof -
  let ?cfg = "example_config\<lparr>APP_SECRET := None\<rparr>"
  let ?req = "\<lambda>h. \<lparr>signatureHeader = h, rawBody = Some raw_no_entry,
      parsedBody = envelope_no_entry\<rparr>"
  have a: "verifySignature ?cfg (?req None)
      = Respond \<lparr>status = 401, body = Text ''Unauthorized''\<rparr>"
    using verifySignature_header_first [of "?req None" ?cfg] by simp
  have b: "verifySignature ?cfg (?req (Some ''sha1=00''))
      = Respond \<lparr>status = 401, body = Text ''Unauthorized''\<rparr>"
    using verifySignature_header_first [of "?req (Some ''sha1=00'')" ?cfg]
    by (simp add: startsWith_def expectedPrefix_def)
  have c: "verifySignature ?cfg (?req (Some ''sha256=00''))
      = Respond \<lparr>status = 500, body = Text ''Internal Server Error''\<rparr>"
    by (simp add: verifySignature_def startsWith_def expectedPrefix_def example_config_def
        sendStatus_def status_message_def)
  have d: "startsWith ''sha256=00'' expectedPrefix"
    using verifySignature_header_first [of "?req (Some ''sha256=00'')" ?cfg
        "\<lparr>status = 500, body = Text ''Internal Server Error''\<rparr>"] c
    by simp
  from a b c d show ?thesis by simp
qed

section \<open>Further properties of the code\<close>

text \<open>
  X1. The hexadecimal part of the header is decoded leniently: a header that carries the
  right digest followed by any text that starts with a character that is not a
  hexadecimal digit passes the middleware.
\<close>

theorem verifySignature_accepts_trailing_text:
  assumes "secret \<noteq> []" and "APP_SECRET cfg = Some secret" and "rawBody req = Some raw"
    and "unhex c = None"
    and "signatureHeader req
           = Some (''sha256='' @ toHex (hmac_sha256 (bytes_of_string secret) raw) @ c # rest)"
  shows "verifySignature cfg req = Next"
  using assms
  by (simp add: verifySignature_def expectedPrefix_def startsWith_def fromHex_toHex
      fromHex_toHex_tail timingSafeEqual_def Let_def)

theorem verifySignature_accepts_trailing_text_witness:
  "verifySignature example_config
     \<lparr>signatureHeader = Some (''sha256=''
          @ toHex (hmac_sha256 (bytes_of_string ''app-secret'') raw_one_message) @ '', extra''),
      rawBody = Some raw_one_message, parsedBody = envelope_one_message\<rparr> = Next"
  using verifySignature_accepts_trailing_text [of "''app-secret''" example_config
      "\<lparr>signatureHeader = Some (''sha256=''
          @ toHex (hmac_sha256 (bytes_of_string ''app-secret'') raw_one_message) @ '', extra''),
        rawBody = Some raw_one_message, parsedBody = envelope_one_message\<rparr>"
      raw_one_message "CHR '',''" "'' extra''"]
  by (simp add: example_config_def unhex_def)

text \<open>
  X2. The calls of the sender made before a throw stay made: when well-formed entries
  are followed by an entry that is \<^verbatim>\<open>null\<close>, every message of the well-formed entries is
  answered and the request then ends in the TypeError, without acknowledgment.
\<close>

theorem postWebhook_replies_before_throw:
  assumes "verifySignature cfg req = Next"
    and "parsedBody req = JObj [(''object'', JStr ''whatsapp_business_account''),
                                (''entry'', JArr (es @ [Null]))]"
    and "list_all wf_entry es"
  shows "postWebhook cfg net req
           = \<lparr>outcome = Threw TypeError,
              calls = map (reply_call cfg net) (concat (map messages_of_entry es))\<rparr>"
  using assms
  by (simp add: postWebhook_def handlePost_def processBody_def orThrow_def forEach_list_append
      forEach_entries_wf onEntry_def)

theorem postWebhook_replies_before_throw_witness:
  "outcome (postWebhook example_config (\<lambda>rq. Resolved)
      (signed_request ''app-secret'' raw_entry_then_null envelope_entry_then_null))
     = Threw TypeError
   \<and> map call_to (calls (postWebhook example_config (\<lambda>rq. Resolved)
      (signed_request ''app-secret'' raw_entry_then_null envelope_entry_then_null)))
     = [JStr ''1555'']"
proof -
  have v: "verifySignature example_config
      (signed_request ''app-secret'' raw_entry_then_null envelope_entry_then_null) = Next"
    by (rule verify_signed_request) (simp_all add: example_config_def)
  have p: "parsedBody (signed_request ''app-secret'' raw_entry_then_null envelope_entry_then_null)
      = JObj [(''object'', JStr ''whatsapp_business_account''),
              (''entry'', JArr ([entry_one_message] @ [Null]))]"
    by (simp add: signed_request_def envelope_entry_then_null_def)
  have w: "list_all wf_entry [entry_one_message]"
    by (simp add: wf_entry_def wf_change_def wf_message_def entry_one_message_def)
  show ?thesis
    using postWebhook_replies_before_throw [OF v p w, of "\<lambda>rq. Resolved"]
    by (simp add: messages_of_entry_def messages_of_change_def entry_one_message_def
        reply_call_def message_from_def)
qed

end
